theory Spec2Isabelle
  imports Complex_Main
begin

section \<open>JavaScript values read from a response body\<close>

text \<open>
  The values that \<^verbatim>\<open>response.json()\<close> yields, plus \<^verbatim>\<open>undefined\<close>, which
  optional chaining produces. A number is the parsed double: a rational, one of the two
  infinities (\<^verbatim>\<open>JSON.parse("1e999")\<close>), or NaN. Strings are character lists. An
  object is the list of its own properties, each name once.
\<close>

datatype jsnumber = Finite rat | PosInfinity | NegInfinity | NaN

datatype jsval =
    Undefined
  | Null
  | Bool bool
  | Num jsnumber
  | Str string
  | Arr "jsval list"
  | Obj "(string \<times> jsval) list"

text \<open>Truthiness: \<^verbatim>\<open>!v\<close> is true exactly when \<open>truthy v\<close> is false.\<close>

fun truthy :: "jsval \<Rightarrow> bool" where
  "truthy Undefined = False"
| "truthy Null = False"
| "truthy (Bool b) = b"
| "truthy (Num (Finite q)) = (q \<noteq> 0)"
| "truthy (Num NaN) = False"
| "truthy (Num PosInfinity) = True"
| "truthy (Num NegInfinity) = True"
| "truthy (Str s) = (s \<noteq> [])"
| "truthy (Arr xs) = True"
| "truthy (Obj kvs) = True"

text \<open>
  \<^verbatim>\<open>v.name\<close> for the property names this program reads (\<^verbatim>\<open>candidates\<close>,
  \<^verbatim>\<open>content\<close>, \<^verbatim>\<open>parts\<close>, \<^verbatim>\<open>text\<close>, \<^verbatim>\<open>error\<close>, \<^verbatim>\<open>message\<close>): only an
  object can hold one of them; arrays, strings, numbers and booleans give
  \<^verbatim>\<open>undefined\<close>. The receiver is not \<^verbatim>\<open>null\<close> or \<^verbatim>\<open>undefined\<close> here
  (see \<open>optProp\<close> and \<open>apiErrorOf\<close>).
\<close>

fun getProp :: "jsval \<Rightarrow> string \<Rightarrow> jsval" where
  "getProp (Obj kvs) k = (case map_of kvs k of Some v \<Rightarrow> v | None \<Rightarrow> Undefined)"
| "getProp v k = Undefined"

text \<open>\<^verbatim>\<open>v[0]\<close>: the first element of an array, the first character of a string, the
  property \<^verbatim>\<open>"0"\<close> of an object.\<close>

fun getIndex0 :: "jsval \<Rightarrow> jsval" where
  "getIndex0 (Arr []) = Undefined"
| "getIndex0 (Arr (x # xs)) = x"
| "getIndex0 (Str []) = Undefined"
| "getIndex0 (Str (c # cs)) = Str [c]"
| "getIndex0 (Obj kvs) = (case map_of kvs ''0'' of Some v \<Rightarrow> v | None \<Rightarrow> Undefined)"
| "getIndex0 v = Undefined"

text \<open>Optional chaining: \<^verbatim>\<open>v?.name\<close> and \<^verbatim>\<open>v?.[0]\<close>.\<close>

definition nullish :: "jsval \<Rightarrow> bool" where
  "nullish v = (v = Undefined \<or> v = Null)"

definition optProp :: "jsval \<Rightarrow> string \<Rightarrow> jsval" where
  "optProp v k = (if nullish v then Undefined else getProp v k)"

definition optIndex0 :: "jsval \<Rightarrow> jsval" where
  "optIndex0 v = (if nullish v then Undefined else getIndex0 v)"

text \<open>\<^verbatim>\<open>result?.candidates?.[0]?.content?.parts?.[0]?.text\<close>\<close>

definition reportOf :: "jsval \<Rightarrow> jsval" where
  "reportOf result =
     optProp (optIndex0 (optProp (optProp (optIndex0 (optProp result ''candidates''))
       ''content'') ''parts'')) ''text''"

section \<open>The remote endpoint\<close>

text \<open>
  What one \<^verbatim>\<open>fetch\<close> gives back: the promise rejects (a network-level fault), or it
  resolves to a response with a status, a status text and a body. The body is
  \<open>None\<close> when it is not JSON, so that \<^verbatim>\<open>response.json()\<close> rejects.
  \<^verbatim>\<open>response.ok\<close> is true for the statuses 200 to 299.
\<close>

record response =
  status :: nat
  statusText :: string
  body :: "jsval option"

datatype outcome = Rejected string | Responded response

definition ok :: "response \<Rightarrow> bool" where
  "ok r = (200 \<le> status r \<and> status r \<le> 299)"

text \<open>
  The errors of the program. Each constructor is one \<^verbatim>\<open>throw\<close> of the source or one
  exception of the runtime:
  \<^item> \<open>MissingCredential\<close>: \<^verbatim>\<open>Error("GEMINI_API_KEY is not set in environment variables.")\<close>
  \<^item> \<open>EmptyResponse\<close>: \<^verbatim>\<open>Error("Gemini API returned an empty or invalid response.")\<close>
  \<^item> \<open>ApiError status detail\<close>: \<^verbatim>\<open>Error(`Gemini API Error: ${status} ${detail}`)\<close>
  \<^item> \<open>RetriesExhausted\<close>: \<^verbatim>\<open>Error("Gemini API call failed after multiple retries.")\<close>
  \<^item> \<open>NetworkFault\<close>: what \<^verbatim>\<open>fetch\<close> rejects with
  \<^item> \<open>BodyParseFault\<close>: what \<^verbatim>\<open>response.json()\<close> rejects with on the success path
  \<^item> \<open>NullBodyTypeError\<close>: the TypeError of \<^verbatim>\<open>errorBody.error\<close> when the error body is
    the JSON value \<^verbatim>\<open>null\<close>
  \<^item> \<open>FileReadFault\<close>: what \<^verbatim>\<open>fs.readFileSync\<close> throws
  \<^item> \<open>StoreFault\<close>: what \<^verbatim>\<open>pool.query\<close> rejects with
\<close>

datatype error =
    MissingCredential
  | EmptyResponse
  | ApiError nat jsval
  | RetriesExhausted
  | NetworkFault string
  | BodyParseFault
  | NullBodyTypeError
  | FileReadFault
  | StoreFault



text \<open>What the program does, in order: the trace of its effects.\<close>

datatype event =
    LogReceived string string
  | Fetch nat
  | LogAttemptStatus nat nat jsval
  | LogAttemptError nat error
  | Sleep nat
  | ReadFile string
  | InsertReview string string jsval
  | LogAnalysisError error
  | WriteTemp string
  | Unlink string
  | LogUnlinkError string

section \<open>callGeminiApi\<close>

definition MAX_RETRIES :: nat where
  "MAX_RETRIES = 5"

text \<open>\<^verbatim>\<open>Math.pow(2, i) * 1000\<close>\<close>

definition delay :: "nat \<Rightarrow> nat" where
  "delay i = 2 ^ i * 1000"

text \<open>
  The error thrown at line 94:
  \<^verbatim>\<open>new Error(`Gemini API Error: ${response.status} ${errorBody.error?.message || response.statusText}`)\<close>.
  Reading \<^verbatim>\<open>errorBody.error\<close> throws a TypeError when \<^verbatim>\<open>errorBody\<close> is \<^verbatim>\<open>null\<close>.
\<close>

definition apiErrorOf :: "response \<Rightarrow> jsval \<Rightarrow> error" where
  "apiErrorOf r errorBody =
     (if nullish errorBody then NullBodyTypeError
      else let m = optProp (getProp errorBody ''error'') ''message''
           in ApiError (status r) (if truthy m then m else Str (statusText r)))"

text \<open>
  How the body of the \<^verbatim>\<open>try\<close> block ends in iteration \<open>i\<close>, after \<^verbatim>\<open>fetch\<close>:
  it returns the report, it runs \<^verbatim>\<open>continue\<close> (after the wait), or it throws.
\<close>

datatype completion = Returned jsval | Continued | Thrown error

fun tryBody :: "outcome \<Rightarrow> nat \<Rightarrow> completion \<times> event list" where
  "tryBody (Rejected msg) i = (Thrown (NetworkFault msg), [])"
| "tryBody (Responded r) i =
     (if ok r then
        (case body r of
           None \<Rightarrow> (Thrown BodyParseFault, [])
         | Some result \<Rightarrow>
             (if \<not> truthy (reportOf result) then (Thrown EmptyResponse, [])
              else (Returned (reportOf result), [])))
      else
        (let errorBody = (case body r of None \<Rightarrow> Obj [] | Some b \<Rightarrow> b);
             logged = [LogAttemptStatus (i + 1) (status r) errorBody]
         in if status r \<ge> 500 \<and> i < MAX_RETRIES - 1
            then (Continued, logged @ [Sleep (delay i)])
            else (Thrown (apiErrorOf r errorBody), logged)))"

text \<open>
  One iteration of the \<^verbatim>\<open>for\<close> loop: the \<^verbatim>\<open>try\<close> body and the \<^verbatim>\<open>catch\<close>
  block, which receives every error thrown in the body. \<open>Inl\<close> leaves the function
  (a return or a throw), \<open>Inr ()\<close> goes on to iteration \<open>i + 1\<close>.
\<close>

definition iteration :: "outcome \<Rightarrow> nat \<Rightarrow> ((error + jsval) + unit) \<times> event list" where
  "iteration out i =
     (case tryBody out i of
        (Returned report, evs) \<Rightarrow> (Inl (Inr report), Fetch i # evs)
      | (Continued, evs) \<Rightarrow> (Inr (), Fetch i # evs)
      | (Thrown err, evs) \<Rightarrow>
          (if i = MAX_RETRIES - 1
           then (Inl (Inl err), Fetch i # evs @ [LogAttemptError (i + 1) err])
           else (Inr (), Fetch i # evs @ [LogAttemptError (i + 1) err, Sleep (delay i)])))"

text \<open>
  The loop from iteration \<open>i\<close> on, and the \<^verbatim>\<open>throw\<close> after it. \<open>endpoint i\<close> is
  what the \<open>i\<close>-th \<^verbatim>\<open>fetch\<close> of this call gives back.
\<close>

function retryLoop :: "(nat \<Rightarrow> outcome) \<Rightarrow> nat \<Rightarrow> (error + jsval) \<times> event list" where
  "retryLoop endpoint i =
     (if i < MAX_RETRIES then
        (case iteration (endpoint i) i of
           (Inl res, evs) \<Rightarrow> (res, evs)
         | (Inr u, evs) \<Rightarrow>
             (case retryLoop endpoint (i + 1) of (res, evs') \<Rightarrow> (res, evs @ evs')))
      else (Inl RetriesExhausted, []))"
  by pat_completeness auto
termination
  by (relation "measure (\<lambda>(endpoint, i). MAX_RETRIES - i)") auto

declare retryLoop.simps [simp del]

text \<open>\<^verbatim>\<open>!GEMINI_API_KEY\<close>: the variable is unset or empty.\<close>

definition keyMissing :: "string option \<Rightarrow> bool" where
  "keyMissing k = (case k of None \<Rightarrow> True | Some s \<Rightarrow> s = [])"

definition callGeminiApi :: "string option \<Rightarrow> (nat \<Rightarrow> outcome) \<Rightarrow> (error + jsval) \<times> event list" where
  "callGeminiApi GEMINI_API_KEY endpoint =
     (if keyMissing GEMINI_API_KEY then (Inl MissingCredential, [])
      else retryLoop endpoint 0)"

text \<open>Readings of a trace: the attempts made and the waits, in order.\<close>

fun attempts :: "event list \<Rightarrow> nat" where
  "attempts [] = 0"
| "attempts (Fetch i # evs) = Suc (attempts evs)"
| "attempts (e # evs) = attempts evs"

fun waits :: "event list \<Rightarrow> nat list" where
  "waits [] = []"
| "waits (Sleep ms # evs) = ms # waits evs"
| "waits (e # evs) = waits evs"

text \<open>The specification's classes of a failed attempt.\<close>

fun retryable :: "outcome \<Rightarrow> bool" where
  "retryable (Rejected msg) = True"
| "retryable (Responded r) = (status r \<ge> 500)"

fun terminal :: "outcome \<Rightarrow> bool" where
  "terminal (Rejected msg) = False"
| "terminal (Responded r) =
     (if ok r then (case body r of None \<Rightarrow> True | Some result \<Rightarrow> \<not> truthy (reportOf result))
      else status r < 500)"

section \<open>Mock endpoints\<close>

definition generated :: "string \<Rightarrow> jsval" where
  "generated t =
     Obj [(''candidates'', Arr [Obj [(''content'', Obj [(''parts'', Arr [Obj [(''text'', Str t)]])])]])]"

definition replied :: "nat \<Rightarrow> string \<Rightarrow> jsval option \<Rightarrow> outcome" where
  "replied s t b = Responded \<lparr>status = s, statusText = t, body = b\<rparr>"

definition mock400then200 :: "nat \<Rightarrow> outcome" where
  "mock400then200 i =
     (if i = 0 then replied 400 ''Bad Request'' None
      else replied 200 ''OK'' (Some (generated ''LGTM'')))"



definition mock500x4then200 :: "nat \<Rightarrow> outcome" where
  "mock500x4then200 i =
     (if i < 4 then replied 500 ''Internal Server Error'' None
      else replied 200 ''OK'' (Some (generated ''LGTM'')))"

section \<open>The upload gate\<close>

text \<open>
  The file part of a multipart request, as multer describes it to \<^verbatim>\<open>fileFilter\<close> and,
  once stored, in \<^verbatim>\<open>req.file\<close>: the client's file name, the declared MIME type, the
  number of bytes, and the text that \<^verbatim>\<open>fs.readFileSync(path, "utf8")\<close> reads back.
\<close>

record file_part =
  originalname :: string
  mimetype :: string
  byteSize :: nat
  content :: string

definition fileSize :: nat where
  "fileSize = 5 * 1024 * 1024"

definition allowedMimeTypes :: "string list" where
  "allowedMimeTypes =
     [''text/plain'', ''text/javascript'', ''application/javascript'', ''text/x-python'',
      ''application/json'', ''text/html'', ''text/css'', ''text/x-java-source'', ''text/markdown'',
      ''text/x-c++src'', ''text/x-csrc'', ''text/x-csharp'', ''text/x-go'', ''text/x-ruby'',
      ''application/x-httpd-php'', ''text/x-swift'', ''text/x-kotlin'', ''text/rust'',
      ''application/xml'', ''text/xml'', ''application/x-yaml'', ''text/yaml'',
      ''application/x-sh'', ''application/typescript'', ''text/jsx'', ''text/tsx'',
      ''application/octet-stream'']"

definition allowedExtensions :: "string list" where
  "allowedExtensions =
     [''.txt'', ''.js'', ''.py'', ''.json'', ''.html'', ''.css'', ''.java'', ''.md'',
      ''.cpp'', ''.c'', ''.cs'', ''.go'', ''.rb'', ''.php'', ''.swift'', ''.kt'', ''.rs'',
      ''.xml'', ''.yaml'', ''.sh'', ''.ts'', ''.jsx'', ''.tsx'']"

text \<open>
  The two library functions the filter calls, on the strings this model has (8-bit
  characters, POSIX separators). \<^verbatim>\<open>toLowerCase\<close> maps A to Z onto a to z.
  \<^verbatim>\<open>path.extname\<close> gives the last portion of the path from its last dot on, and the
  empty string when that portion has no dot, when its only dot is its first character, or
  when it is \<^verbatim>\<open>..\<close>; trailing separators are not part of the last portion.
\<close>

definition lowerChar :: "char \<Rightarrow> char" where
  "lowerChar c =
     (let n = (of_char c :: nat) in if 65 \<le> n \<and> n \<le> 90 then char_of (n + 32) else c)"

definition toLowerCase :: "string \<Rightarrow> string" where
  "toLowerCase s = map lowerChar s"

definition lastPortion :: "string \<Rightarrow> string" where
  "lastPortion p =
     rev (takeWhile (\<lambda>c. c \<noteq> CHR ''/'') (dropWhile (\<lambda>c. c = CHR ''/'') (rev p)))"

definition extname :: "string \<Rightarrow> string" where
  "extname p =
     (let b = lastPortion p;
          afterDot = rev (takeWhile (\<lambda>c. c \<noteq> CHR ''.'') (rev b))
      in if CHR ''.'' \<notin> set b then []
         else if Suc (length afterDot) = length b then []
         else if b = ''..'' then []
         else CHR ''.'' # afterDot)"

text \<open>
  The two rejections of an upload. \<open>InvalidFileType\<close> is the plain
  \<^verbatim>\<open>Error("Invalid file type. Only code and text files are allowed.")\<close> of
  \<^verbatim>\<open>fileFilter\<close>; \<open>FileTooLarge\<close> is multer's \<^verbatim>\<open>MulterError\<close> with the code
  \<^verbatim>\<open>LIMIT_FILE_SIZE\<close> and the message \<^verbatim>\<open>File too large\<close>.
\<close>

datatype upload_error = InvalidFileType | FileTooLarge

fun isMulterError :: "upload_error \<Rightarrow> bool" where
  "isMulterError FileTooLarge = True"
| "isMulterError InvalidFileType = False"

fun message :: "upload_error \<Rightarrow> string" where
  "message InvalidFileType = ''Invalid file type. Only code and text files are allowed.''"
| "message FileTooLarge = ''File too large''"

text \<open>\<^verbatim>\<open>fileFilter\<close>: \<open>Inr True\<close> is \<^verbatim>\<open>cb(null, true)\<close>, \<open>Inl e\<close> is \<^verbatim>\<open>cb(e, false)\<close>.\<close>

definition typeAllowed :: "file_part \<Rightarrow> bool" where
  "typeAllowed file =
     (mimetype file \<in> set allowedMimeTypes
      \<or> toLowerCase (extname (originalname file)) \<in> set allowedExtensions)"

definition fileFilter :: "file_part \<Rightarrow> upload_error + bool" where
  "fileFilter file = (if typeAllowed file then Inr True else Inl InvalidFileType)"

text \<open>
  What multer, configured as \<^verbatim>\<open>upload\<close>, decides for one file part, as its
  documentation describes the two options. It calls \<^verbatim>\<open>fileFilter\<close> when the part's
  header arrives; an error there ends the upload. It then streams the bytes to
  \<^verbatim>\<open>uploads/\<close> and ends the upload with \<^verbatim>\<open>LIMIT_FILE_SIZE\<close> when they exceed
  \<^verbatim>\<open>limits.fileSize\<close>, the maximum file size in bytes. \<open>Inr False\<close> is a part the
  filter skipped, \<open>Inr True\<close> a file stored.
\<close>

definition upload :: "file_part \<Rightarrow> upload_error + bool" where
  "upload file =
     (case fileFilter file of
        Inl e \<Rightarrow> Inl e
      | Inr include \<Rightarrow>
          (if \<not> include then Inr False
           else if byteSize file > fileSize then Inl FileTooLarge
           else Inr True))"

section \<open>The store\<close>

text \<open>A row of the table \<^verbatim>\<open>reviews\<close>.\<close>

record review =
  review_id :: int
  filename :: string
  review_prompt :: string
  report :: jsval
  created_at :: nat

text \<open>
  The world outside the process that the handlers read and change: the files of the
  upload directory (path to text), the rows of \<^verbatim>\<open>reviews\<close>, and the store's next
  identifier and clock.
\<close>

record world =
  files :: "string \<rightharpoonup> string"
  reviews :: "review list"
  nextId :: int
  clock :: nat

text \<open>
  Modelled from the spec: \<^verbatim>\<open>pool\<close>, exported by \<^verbatim>\<open>db.js\<close>, and the relational store
  behind it are not part of the sources. The specification gives the table and says that
  the store provides atomic single-row insert, read and delete, that it assigns the unique
  identifier and the creation time at insert, and that a query may fail. A failing query
  is \<open>down = True\<close>, or an identifier text the store cannot read (\<open>asId rid = None\<close>);
  \<open>asId\<close> is the store's reading of the text of a statement parameter as a value of
  the column \<^verbatim>\<open>id\<close>.
\<close>

definition insertReview ::
  "bool \<Rightarrow> world \<Rightarrow> string \<Rightarrow> string \<Rightarrow> jsval \<Rightarrow> error + (review \<times> world)" where
  "insertReview down w name prompt rep =
     (if down then Inl StoreFault
      else let row = \<lparr>review_id = nextId w, filename = name, review_prompt = prompt,
                       report = rep, created_at = clock w\<rparr>
           in Inr (row, w\<lparr>reviews := row # reviews w, nextId := nextId w + 1\<rparr>))"

definition selectById ::
  "(string \<Rightarrow> int option) \<Rightarrow> bool \<Rightarrow> world \<Rightarrow> string \<Rightarrow> error + review list" where
  "selectById asId down w rid =
     (if down then Inl StoreFault
      else case asId rid of
             None \<Rightarrow> Inl StoreFault
           | Some k \<Rightarrow> Inr (filter (\<lambda>r. review_id r = k) (reviews w)))"

text \<open>The result of the delete is \<^verbatim>\<open>rowCount\<close> and the table without the matching rows.\<close>

definition deleteById ::
  "(string \<Rightarrow> int option) \<Rightarrow> bool \<Rightarrow> world \<Rightarrow> string \<Rightarrow> error + (nat \<times> world)" where
  "deleteById asId down w rid =
     (if down then Inl StoreFault
      else case asId rid of
             None \<Rightarrow> Inl StoreFault
           | Some k \<Rightarrow>
               Inr (length (filter (\<lambda>r. review_id r = k) (reviews w)),
                    w\<lparr>reviews := filter (\<lambda>r. review_id r \<noteq> k) (reviews w)\<rparr>))"

section \<open>The HTTP handlers\<close>

text \<open>A reply of the server: \<^verbatim>\<open>res.status(code).json(...)\<close> or \<^verbatim>\<open>res.status(code).end()\<close>.\<close>

datatype reply_body =
    ErrorJson string
  | AnalysisJson string int string nat string jsval
  | ReportJson review
  | EmptyBody

record reply =
  code :: nat
  sent :: reply_body

text \<open>
  What the process is given besides the request: the credential, the answers of the
  remote endpoint to this request's calls, the file name multer picks under its
  destination \<^verbatim>\<open>uploads/\<close>, and whether reading or unlinking that file fails and
  whether the store's query fails.
\<close>

record env =
  GEMINI_API_KEY :: "string option"
  endpoint :: "nat \<Rightarrow> outcome"
  tmpName :: string
  readFails :: bool
  unlinkFails :: bool
  storeDown :: bool

text \<open>
  \<^verbatim>\<open>deleteTempFile\<close>: nothing happens for an empty path or an absent file; otherwise
  the file is unlinked, and an unlink error is logged in the callback.
\<close>

definition deleteTempFile :: "env \<Rightarrow> world \<Rightarrow> string \<Rightarrow> world \<times> event list" where
  "deleteTempFile e w filePath =
     (if filePath \<noteq> [] \<and> files w filePath \<noteq> None then
        (if unlinkFails e then (w, [Unlink filePath, LogUnlinkError filePath])
         else (w\<lparr>files := (files w)(filePath := None)\<rparr>, [Unlink filePath]))
      else (w, []))"

text \<open>
  \<^verbatim>\<open>upload.single("file")\<close> on the request's file part, if it has one. A part that
  the filter rejects is never written. A part that the filter accepts is streamed to a
  file under the destination \<^verbatim>\<open>uploads/\<close>. When the size limit trips during the
  streaming, the file holds the bytes up to the limit, and multer, before it reports the
  error, unlinks that file itself; an error of this unlink is kept inside the reported
  error and is not logged.
\<close>

datatype uploaded = NoFile | Stored file_part string | Failed upload_error

definition uploader :: "env \<Rightarrow> world \<Rightarrow> file_part option \<Rightarrow> uploaded \<times> world \<times> event list" where
  "uploader e w part =
     (case part of
        None \<Rightarrow> (NoFile, w, [])
      | Some file \<Rightarrow>
          (case upload file of
             Inl err \<Rightarrow>
               (if isMulterError err
                then (Failed err,
                      (if unlinkFails e
                       then w\<lparr>files := (files w)(''uploads/'' @ tmpName e
                                         \<mapsto> take fileSize (content file))\<rparr>
                       else w\<lparr>files := (files w)(''uploads/'' @ tmpName e := None)\<rparr>),
                      [LogReceived (originalname file) (mimetype file),
                       WriteTemp (''uploads/'' @ tmpName e), Unlink (''uploads/'' @ tmpName e)])
                else (Failed err, w, [LogReceived (originalname file) (mimetype file)]))
           | Inr stored \<Rightarrow>
               (if stored
                then (Stored file (''uploads/'' @ tmpName e),
                      w\<lparr>files := (files w)(''uploads/'' @ tmpName e \<mapsto> content file)\<rparr>,
                      [LogReceived (originalname file) (mimetype file),
                       WriteTemp (''uploads/'' @ tmpName e)])
                else (NoFile, w, [LogReceived (originalname file) (mimetype file)]))))"

definition genericError :: string where
  "genericError = ''An internal server error occurred during the analysis.''"

text \<open>
  \<^verbatim>\<open>!userPrompt\<close>: the field is absent or empty; \<open>provided\<close> gives the text of a
  prompt that is there.
\<close>

definition provided :: "string option \<Rightarrow> string option" where
  "provided p = (case p of None \<Rightarrow> None | Some s \<Rightarrow> if s = [] then None else Some s)"

text \<open>
  The \<^verbatim>\<open>try\<close> block of the second handler of \<^verbatim>\<open>POST /api/analyze\<close>: \<open>Inr\<close> is the
  reply it sends, \<open>Inl\<close> the error it throws. The request sent to the endpoint has no
  bearing on the endpoint's answers here, which are given by \<open>endpoint e\<close>.
\<close>

definition analyzeTry ::
  "env \<Rightarrow> world \<Rightarrow> (file_part \<times> string) option \<Rightarrow> string option
     \<Rightarrow> (error + reply) \<times> world \<times> event list" where
  "analyzeTry e w reqFile userPrompt =
     (case reqFile of
        None \<Rightarrow> (Inr \<lparr>code = 400, sent = ErrorJson ''A code file is required.''\<rparr>, w, [])
      | Some (file, filePath) \<Rightarrow>
          (case provided userPrompt of
             None \<Rightarrow> (Inr \<lparr>code = 400, sent = ErrorJson ''A review prompt is required.''\<rparr>, w, [])
           | Some text \<Rightarrow>
               (if readFails e \<or> files w filePath = None
                then (Inl FileReadFault, w, [ReadFile filePath])
                else
                  (case callGeminiApi (GEMINI_API_KEY e) (endpoint e) of
                     (Inl err, tr) \<Rightarrow> (Inl err, w, ReadFile filePath # tr)
                   | (Inr rep, tr) \<Rightarrow>
                       (case insertReview (storeDown e) w (originalname file) text rep of
                          Inl err \<Rightarrow>
                            (Inl err, w,
                             ReadFile filePath # tr @ [InsertReview (originalname file) text rep])
                        | Inr (row, w') \<Rightarrow>
                            (Inr \<lparr>code = 201,
                                  sent = AnalysisJson ''Analysis successful!'' (review_id row)
                                           (filename row) (created_at row) text rep\<rparr>,
                             w',
                             ReadFile filePath # tr @ [InsertReview (originalname file) text rep]))))))"

text \<open>The whole second handler: \<^verbatim>\<open>try\<close>, \<^verbatim>\<open>catch\<close> and \<^verbatim>\<open>finally\<close>.\<close>

definition analyzeHandler ::
  "env \<Rightarrow> world \<Rightarrow> (file_part \<times> string) option \<Rightarrow> string option
     \<Rightarrow> reply \<times> world \<times> event list" where
  "analyzeHandler e w reqFile userPrompt =
     (case analyzeTry e w reqFile userPrompt of
        (res, w1, evs) \<Rightarrow>
          (let (rep, caught) =
                 (case res of
                    Inr r \<Rightarrow> (r, [])
                  | Inl err \<Rightarrow> (\<lparr>code = 500, sent = ErrorJson genericError\<rparr>, [LogAnalysisError err]));
               (w2, released) =
                 (case reqFile of
                    None \<Rightarrow> (w1, [])
                  | Some (file, filePath) \<Rightarrow> deleteTempFile e w1 filePath)
           in (rep, w2, evs @ caught @ released)))"

text \<open>The request of \<^verbatim>\<open>POST /api/analyze\<close>: its file part and its \<^verbatim>\<open>prompt\<close> field.\<close>

record request =
  filePart :: "file_part option"
  prompt :: "string option"

text \<open>The route: the first handler runs the uploader and answers its errors with 400.\<close>

definition analyze :: "env \<Rightarrow> world \<Rightarrow> request \<Rightarrow> reply \<times> world \<times> event list" where
  "analyze e w req =
     (case uploader e w (filePart req) of
        (Failed err, w1, evs) \<Rightarrow>
          (if isMulterError err
           then (\<lparr>code = 400, sent = ErrorJson (''File upload error: '' @ message err)\<rparr>, w1, evs)
           else (\<lparr>code = 400, sent = ErrorJson (message err)\<rparr>, w1, evs))
      | (NoFile, w1, evs) \<Rightarrow>
          (case analyzeHandler e w1 None (prompt req) of
             (rep, w2, evs') \<Rightarrow> (rep, w2, evs @ evs'))
      | (Stored file filePath, w1, evs) \<Rightarrow>
          (case analyzeHandler e w1 (Some (file, filePath)) (prompt req) of
             (rep, w2, evs') \<Rightarrow> (rep, w2, evs @ evs')))"

text \<open>\<^verbatim>\<open>GET /api/reports/:id\<close>\<close>

definition getReport ::
  "(string \<Rightarrow> int option) \<Rightarrow> bool \<Rightarrow> world \<Rightarrow> string \<Rightarrow> reply" where
  "getReport asId down w rid =
     (case selectById asId down w rid of
        Inl err \<Rightarrow> \<lparr>code = 500, sent = ErrorJson ''Failed to fetch the specified report.''\<rparr>
      | Inr [] \<Rightarrow> \<lparr>code = 404, sent = ErrorJson (''Report with ID '' @ rid @ '' not found.'')\<rparr>
      | Inr (row # rows) \<Rightarrow> \<lparr>code = 200, sent = ReportJson row\<rparr>)"

text \<open>\<^verbatim>\<open>DELETE /api/reports/:id\<close>\<close>

definition deleteReport ::
  "(string \<Rightarrow> int option) \<Rightarrow> bool \<Rightarrow> world \<Rightarrow> string \<Rightarrow> reply \<times> world" where
  "deleteReport asId down w rid =
     (case deleteById asId down w rid of
        Inl err \<Rightarrow> (\<lparr>code = 500, sent = ErrorJson ''Failed to delete the report.''\<rparr>, w)
      | Inr (rowCount, w') \<Rightarrow>
          (if rowCount = 0
           then (\<lparr>code = 404, sent = ErrorJson (''Report with ID '' @ rid @ '' not found.'')\<rparr>, w')
           else (\<lparr>code = 204, sent = EmptyBody\<rparr>, w')))"



section \<open>Properties of the retry loop\<close>

lemma attempts_append: "attempts (xs @ ys) = attempts xs + attempts ys"
  by (induction xs rule: attempts.induct) simp_all

lemma waits_append: "waits (xs @ ys) = waits xs @ waits ys"
  by (induction xs rule: waits.induct) simp_all

lemma tryBody_quiet: "tryBody out i = (c, evs) \<Longrightarrow> attempts evs = 0"
  by (cases out) (auto simp: Let_def split: if_splits option.splits)

lemma tryBody_waits:
  "tryBody out i = (c, evs) \<Longrightarrow> waits evs = (if c = Continued then [delay i] else [])"
  by (cases out) (auto simp: Let_def split: if_splits option.splits)

lemma tryBody_Continued:
  "tryBody out i = (Continued, evs) \<Longrightarrow> i < MAX_RETRIES - 1"
  by (cases out) (auto simp: Let_def split: if_splits option.splits)

lemma tryBody_not_exhausted: "tryBody out i = (Thrown e, evs) \<Longrightarrow> e \<noteq> RetriesExhausted"
  by (cases out) (auto simp: Let_def apiErrorOf_def split: if_splits option.splits)

lemma tryBody_Returned:
  "tryBody out i = (Returned v, evs) \<Longrightarrow>
     \<exists>r b. out = Responded r \<and> ok r \<and> body r = Some b \<and> reportOf b = v \<and> truthy v"
  by (cases out) (auto simp: Let_def split: if_splits option.splits)

lemma iteration_attempts: "iteration out i = (r, evs) \<Longrightarrow> attempts evs = 1"
  unfolding iteration_def
  by (auto simp: attempts_append split: prod.splits completion.splits if_splits dest: tryBody_quiet)

lemma iteration_waits:
  "iteration out i = (r, evs) \<Longrightarrow>
     waits evs = (case r of Inl res \<Rightarrow> [] | Inr u \<Rightarrow> [delay i])"
  unfolding iteration_def
  by (auto simp: waits_append split: prod.splits completion.splits if_splits dest: tryBody_waits)

lemma iteration_last: "iteration out (MAX_RETRIES - 1) = (r, evs) \<Longrightarrow> \<exists>res. r = Inl res"
  unfolding iteration_def
  by (auto split: prod.splits completion.splits if_splits dest: tryBody_Continued)

lemma iteration_Returned:
  "iteration out i = (Inl (Inr v), evs) \<Longrightarrow>
     \<exists>r b. out = Responded r \<and> ok r \<and> body r = Some b \<and> reportOf b = v \<and> truthy v"
  unfolding iteration_def
  by (auto split: prod.splits completion.splits if_splits dest: tryBody_Returned)

lemma iteration_not_exhausted: "iteration out i = (Inl (Inl e), evs) \<Longrightarrow> e \<noteq> RetriesExhausted"
  unfolding iteration_def
  by (auto split: prod.splits completion.splits if_splits dest: tryBody_not_exhausted)

lemma retryLoop_stop:
  "i < MAX_RETRIES \<Longrightarrow> iteration (ep i) i = (Inl res, evs) \<Longrightarrow>
     retryLoop ep i = (res, evs)"
  by (simp add: retryLoop.simps [of ep i])

lemma retryLoop_next:
  "i < MAX_RETRIES \<Longrightarrow> iteration (ep i) i = (Inr u, evs) \<Longrightarrow>
     retryLoop ep i =
       (fst (retryLoop ep (Suc i)), evs @ snd (retryLoop ep (Suc i)))"
  by (simp add: retryLoop.simps [of ep i] split: prod.splits)

lemma retryLoop_end: "\<not> i < MAX_RETRIES \<Longrightarrow> retryLoop ep i = (Inl RetriesExhausted, [])"
  by (simp add: retryLoop.simps [of ep i])

lemma retryLoop_attempts: "attempts (snd (retryLoop ep i)) \<le> MAX_RETRIES - i"
proof (induction ep i rule: retryLoop.induct)
  case (1 ep i)
  show ?case
  proof (cases "i < MAX_RETRIES")
    case False
    then show ?thesis by (simp add: retryLoop_end)
  next
    case True
    obtain r evs where it: "iteration (ep i) i = (r, evs)" by (cases "iteration (ep i) i")
    have one: "attempts evs = 1" using iteration_attempts [OF it] .
    show ?thesis
    proof (cases r)
      case (Inl res)
      with True it one show ?thesis by (simp add: retryLoop_stop)
    next
      case (Inr u)
      with "1.IH" [OF True it [symmetric]] True it one show ?thesis
        by (simp add: retryLoop_next attempts_append)
    qed
  qed
qed

lemma retryLoop_waits:
  "waits (snd (retryLoop ep i)) =
     map delay [i ..< i + (attempts (snd (retryLoop ep i)) - 1)]"
proof (induction ep i rule: retryLoop.induct)
  case (1 ep i)
  show ?case
  proof (cases "i < MAX_RETRIES")
    case False
    then show ?thesis by (simp add: retryLoop_end)
  next
    case True
    obtain r evs where it: "iteration (ep i) i = (r, evs)" by (cases "iteration (ep i) i")
    have one: "attempts evs = 1" using iteration_attempts [OF it] .
    show ?thesis
    proof (cases r)
      case (Inl res)
      with True it one iteration_waits [OF it] show ?thesis by (simp add: retryLoop_stop)
    next
      case (Inr u)
      have last: "i \<noteq> MAX_RETRIES - 1" using iteration_last [of "ep i" r evs] it Inr by auto
      with True have lt: "Suc i < MAX_RETRIES" by simp
      obtain r' evs' where it': "iteration (ep (Suc i)) (Suc i) = (r', evs')"
        by (cases "iteration (ep (Suc i)) (Suc i)")
      have pos: "attempts (snd (retryLoop ep (Suc i))) \<ge> 1"
        using lt it' iteration_attempts [OF it']
        by (cases r') (simp_all add: retryLoop_stop retryLoop_next attempts_append)
      from "1.IH" [OF True it [symmetric]] Inr True it one iteration_waits [OF it] pos
      show ?thesis
        by (simp add: retryLoop_next attempts_append waits_append upt_conv_Cons)
    qed
  qed
qed

lemma retryLoop_never_exhausted:
  "i < MAX_RETRIES \<Longrightarrow> fst (retryLoop ep i) \<noteq> Inl RetriesExhausted"
proof (induction ep i rule: retryLoop.induct)
  case (1 ep i)
  obtain r evs where it: "iteration (ep i) i = (r, evs)" by (cases "iteration (ep i) i")
  show ?case
  proof (cases r)
    case (Inl res)
    with "1.prems" it iteration_not_exhausted [of "ep i" i _ evs] show ?thesis
      by (cases res) (auto simp add: retryLoop_stop)
  next
    case (Inr u)
    have last: "i \<noteq> MAX_RETRIES - 1" using iteration_last [of "ep i" r evs] it Inr by auto
    with "1.prems" have lt: "Suc i < MAX_RETRIES" by simp
    from "1.IH" [OF "1.prems" it [symmetric]] Inr lt it "1.prems" show ?thesis
      by (simp add: retryLoop_next)
  qed
qed

lemma retryLoop_Returned:
  "retryLoop ep i = (Inr v, tr) \<Longrightarrow>
     \<exists>j r b. i \<le> j \<and> j < MAX_RETRIES \<and> ep j = Responded r \<and> ok r \<and> body r = Some b
        \<and> reportOf b = v \<and> truthy v"
proof (induction ep i arbitrary: tr rule: retryLoop.induct)
  case (1 ep i)
  show ?case
  proof (cases "i < MAX_RETRIES")
    case False
    with "1.prems" show ?thesis by (simp add: retryLoop_end)
  next
    case True
    obtain r evs where it: "iteration (ep i) i = (r, evs)" by (cases "iteration (ep i) i")
    show ?thesis
    proof (cases r)
      case (Inl res)
      with True it "1.prems" have "iteration (ep i) i = (Inl (Inr v), evs)"
        by (simp add: retryLoop_stop)
      from iteration_Returned [OF this] True show ?thesis by blast
    next
      case (Inr u)
      with True it "1.prems" have "fst (retryLoop ep (Suc i)) = Inr v"
        by (simp add: retryLoop_next)
      then have "retryLoop ep (i + 1) = (Inr v, snd (retryLoop ep (i + 1)))"
        by (simp add: prod_eq_iff)
      then have "\<exists>j r b. i + 1 \<le> j \<and> j < MAX_RETRIES \<and> ep j = Responded r \<and> ok r
          \<and> body r = Some b \<and> reportOf b = v \<and> truthy v"
        by (rule "1.IH" [OF True it [symmetric] Inr])
      then obtain j r b where "i + 1 \<le> j" "j < MAX_RETRIES" "ep j = Responded r" "ok r"
        "body r = Some b" "reportOf b = v" "truthy v" by blast
      moreover from this have "i \<le> j" by simp
      ultimately show ?thesis by blast
    qed
  qed
qed

lemma iteration_retryable_more:
  "retryable out \<Longrightarrow> i < MAX_RETRIES - 1 \<Longrightarrow>
     \<exists>evs. iteration out i = (Inr (), evs) \<and> waits evs = [delay i] \<and> attempts evs = 1"
  by (cases out) (auto simp: iteration_def ok_def Let_def)

lemma iteration_retryable_last:
  "retryable out \<Longrightarrow>
     \<exists>e evs. iteration out (MAX_RETRIES - 1) = (Inl (Inl e), evs) \<and> waits evs = [] \<and> attempts evs = 1
        \<and> fst (tryBody out (MAX_RETRIES - 1)) = Thrown e"
  by (cases out) (auto simp: iteration_def ok_def Let_def)



text \<open>
  An attempt that ends in a terminal condition before the last iteration is caught like
  any other: the loop waits and goes on.
\<close>

lemma iteration_terminal_more:
  "terminal out \<Longrightarrow> i < MAX_RETRIES - 1 \<Longrightarrow>
     \<exists>evs. iteration out i = (Inr (), evs) \<and> waits evs = [delay i] \<and> attempts evs = 1"
  by (cases out) (auto simp: iteration_def Let_def split: option.splits)

lemma callGeminiApi_present:
  "\<not> keyMissing k \<Longrightarrow> callGeminiApi k ep = retryLoop ep 0"
  by (simp add: callGeminiApi_def)

section \<open>The claims about the client\<close>

text \<open>
  C1 (the code does otherwise). The claim: an attempt that ends in a terminal condition,
  such as status 400, makes the call fail at once, with no further attempt. The ep
  \<open>mock400then200\<close> answers 400 to the first request. The error thrown for it is
  caught by the \<^verbatim>\<open>catch\<close> block of the same iteration, which waits one second and
  lets the loop go on: the call makes a second request and returns its text.
\<close>

theorem C1_terminal_failure_is_retried:
  "callGeminiApi (Some ''key'') mock400then200 =
     (Inr (Str ''LGTM''),
      [Fetch 0, LogAttemptStatus 1 400 (Obj []),
       LogAttemptError 1 (ApiError 400 (Str ''Bad Request'')), Sleep 1000, Fetch 1])"
  by code_simp




text \<open>
  C3. The call makes at most 5 attempts, and its waits are \<open>2 ^ i * 1000\<close> ms for
  \<open>i = 0, 1, ...\<close>, one after each attempt but the last one made. An attempt \<open>i < 4\<close>
  that fails retryably is followed by a wait of \<open>2 ^ i * 1000\<close> ms and by attempt
  \<open>i + 1\<close>; the fifth attempt (index 4) ends the call with no wait. Against an
  ep that fails retryably four times and then answers with a success status and a
  non-empty text, the call returns that text after 5 attempts and waits of 1, 2, 4 and 8
  seconds, 15 seconds in all.
\<close>

theorem C3_bounded_backoff:
  "attempts (snd (callGeminiApi k ep)) \<le> 5
   \<and> waits (snd (callGeminiApi k ep))
       = map (\<lambda>i. 2 ^ i * 1000) [0 ..< attempts (snd (callGeminiApi k ep)) - 1]
   \<and> (retryable out \<and> i < 4 \<longrightarrow>
        (\<exists>evs. iteration out i = (Inr (), evs) \<and> waits evs = [2 ^ i * 1000]))
   \<and> (retryable out \<longrightarrow>
        (\<exists>e evs. iteration out 4 = (Inl (Inl e), evs) \<and> waits evs = []))
   \<and> (\<not> keyMissing k \<and> (\<forall>i < 4. retryable (ep i)) \<and> ep 4 = Responded r \<and> ok r
        \<and> body r = Some b \<and> reportOf b = Str text \<and> text \<noteq> [] \<longrightarrow>
        (\<exists>tr. callGeminiApi k ep = (Inr (Str text), tr) \<and> attempts tr = 5
           \<and> waits tr = [1000, 2000, 4000, 8000] \<and> sum_list (waits tr) = 15000))"
proof -
  have four: "MAX_RETRIES - 1 = 4" by (simp add: MAX_RETRIES_def)
  have delay_fun: "delay = (\<lambda>i. 2 ^ i * 1000)" by (rule ext) (simp add: delay_def)
  have a: "attempts (snd (callGeminiApi k ep)) \<le> 5"
    using retryLoop_attempts [of ep 0] by (simp add: callGeminiApi_def MAX_RETRIES_def)
  have b: "waits (snd (callGeminiApi k ep))
       = map (\<lambda>i. 2 ^ i * 1000) [0 ..< attempts (snd (callGeminiApi k ep)) - 1]"
    using retryLoop_waits [of ep 0] by (simp add: callGeminiApi_def delay_fun)
  have c: "retryable out \<and> i < 4 \<longrightarrow>
        (\<exists>evs. iteration out i = (Inr (), evs) \<and> waits evs = [2 ^ i * 1000])"
    using iteration_retryable_more [of out i] unfolding four by (auto simp: delay_def)
  have d: "retryable out \<longrightarrow> (\<exists>e evs. iteration out 4 = (Inl (Inl e), evs) \<and> waits evs = [])"
    using iteration_retryable_last [of out] unfolding four by auto
  have e: "\<exists>tr. callGeminiApi k ep = (Inr (Str text), tr) \<and> attempts tr = 5
           \<and> waits tr = [1000, 2000, 4000, 8000] \<and> sum_list (waits tr) = 15000"
    if key: "\<not> keyMissing k" and retr: "\<forall>i < 4. retryable (ep i)"
      and last: "ep 4 = Responded r" "ok r" "body r = Some b" "reportOf b = Str text" "text \<noteq> []"
  proof -
    have step: "\<exists>evs. iteration (ep i) i = (Inr (), evs) \<and> waits evs = [delay i] \<and> attempts evs = 1"
      if "i < 4" for i
      using iteration_retryable_more [of "ep i" i] retr that unfolding four by simp
    obtain e0 where e0: "iteration (ep 0) 0 = (Inr (), e0)" "waits e0 = [delay 0]" "attempts e0 = 1"
      using step [of 0] by auto
    obtain e1 where e1: "iteration (ep 1) 1 = (Inr (), e1)" "waits e1 = [delay 1]" "attempts e1 = 1"
      using step [of 1] by auto
    obtain e2 where e2: "iteration (ep 2) 2 = (Inr (), e2)" "waits e2 = [delay 2]" "attempts e2 = 1"
      using step [of 2] by auto
    obtain e3 where e3: "iteration (ep 3) 3 = (Inr (), e3)" "waits e3 = [delay 3]" "attempts e3 = 1"
      using step [of 3] by auto
    have e4: "iteration (ep 4) 4 = (Inl (Inr (Str text)), [Fetch 4])"
      using last by (simp add: iteration_def)
    have l4: "retryLoop ep 4 = (Inr (Str text), [Fetch 4])"
      using e4 by (simp add: retryLoop_stop MAX_RETRIES_def)
    have l3: "retryLoop ep 3 = (Inr (Str text), e3 @ [Fetch 4])"
      using retryLoop_next [of 3 ep "()" e3] e3(1) l4 by (simp add: MAX_RETRIES_def numeral_eq_Suc)
    have l2: "retryLoop ep 2 = (Inr (Str text), e2 @ e3 @ [Fetch 4])"
      using retryLoop_next [of 2 ep "()" e2] e2(1) l3 by (simp add: MAX_RETRIES_def numeral_eq_Suc)
    have l1: "retryLoop ep 1 = (Inr (Str text), e1 @ e2 @ e3 @ [Fetch 4])"
      using retryLoop_next [of 1 ep "()" e1] e1(1) l2 by (simp add: MAX_RETRIES_def numeral_eq_Suc)
    have l0: "retryLoop ep 0 = (Inr (Str text), e0 @ e1 @ e2 @ e3 @ [Fetch 4])"
      using retryLoop_next [of 0 ep "()" e0] e0(1) l1 by (simp add: MAX_RETRIES_def)
    show ?thesis
      using l0 key e0 e1 e2 e3
      by (simp add: callGeminiApi_present attempts_append waits_append delay_def)
  qed
  from a b c d e show ?thesis by blast
qed

theorem C3_witness:
  "\<exists>tr. callGeminiApi (Some ''key'') mock500x4then200 = (Inr (Str ''LGTM''), tr)
        \<and> attempts tr = 5 \<and> waits tr = [1000, 2000, 4000, 8000] \<and> sum_list (waits tr) = 15000"
proof -
  have key: "\<not> keyMissing (Some ''key'')" by (simp add: keyMissing_def)
  have retr: "\<forall>i < 4. retryable (mock500x4then200 i)"
    by (simp add: mock500x4then200_def replied_def)
  have last: "mock500x4then200 4
                = Responded \<lparr>status = 200, statusText = ''OK'', body = Some (generated ''LGTM'')\<rparr>"
    by (simp add: mock500x4then200_def replied_def)
  have okr: "ok \<lparr>status = 200, statusText = ''OK'', body = Some (generated ''LGTM'')\<rparr>"
    by (simp add: ok_def)
  have field: "reportOf (generated ''LGTM'') = Str ''LGTM''"
    by (simp add: reportOf_def generated_def optProp_def optIndex0_def nullish_def)
  from C3_bounded_backoff [of "Some ''key''" mock500x4then200 "Rejected []" 0
      "\<lparr>status = 200, statusText = ''OK'', body = Some (generated ''LGTM'')\<rparr>"
      "generated ''LGTM''" "''LGTM''"] key retr last okr field
  show ?thesis by simp
qed

text \<open>
  C6. A value that the call returns is the generated-text field of a response with a
  success status, and it is truthy: it is there (not \<^verbatim>\<open>undefined\<close> or \<^verbatim>\<open>null\<close>)
  and it is not the empty string. An attempt whose response has a success status and an
  absent or empty field throws, so that value is never returned.
\<close>

theorem C6_returned_text_non_empty:
  "(callGeminiApi k ep = (Inr v, tr) \<longrightarrow>
      truthy v \<and> v \<noteq> Str [] \<and> v \<noteq> Undefined \<and> v \<noteq> Null
      \<and> (\<exists>i r b. i < 5 \<and> ep i = Responded r \<and> ok r \<and> body r = Some b \<and> reportOf b = v))
   \<and> (ok r' \<and> body r' = Some b' \<and> \<not> truthy (reportOf b') \<longrightarrow>
        tryBody (Responded r') i' = (Thrown EmptyResponse, []))"
proof -
  have "truthy v \<and> v \<noteq> Str [] \<and> v \<noteq> Undefined \<and> v \<noteq> Null
      \<and> (\<exists>i r b. i < 5 \<and> ep i = Responded r \<and> ok r \<and> body r = Some b \<and> reportOf b = v)"
    if run: "callGeminiApi k ep = (Inr v, tr)"
  proof -
    have "retryLoop ep 0 = (Inr v, tr)"
      using run by (simp add: callGeminiApi_def split: if_splits)
    from retryLoop_Returned [OF this] obtain j r b where
      "j < MAX_RETRIES" "ep j = Responded r" "ok r" "body r = Some b" "reportOf b = v" "truthy v"
      by blast
    then show ?thesis by (auto simp: MAX_RETRIES_def)
  qed
  then show ?thesis by simp
qed

theorem C6_witness:
  "truthy (Str ''LGTM'')
   \<and> tryBody (replied 200 ''OK'' (Some (Obj [(''candidates'', Arr [])]))) 0
       = (Thrown EmptyResponse, [])"
proof -
  have run: "callGeminiApi (Some ''key'') mock400then200 =
     (Inr (Str ''LGTM''),
      [Fetch 0, LogAttemptStatus 1 400 (Obj []),
       LogAttemptError 1 (ApiError 400 (Str ''Bad Request'')), Sleep 1000, Fetch 1])"
    by code_simp
  have r: "ok \<lparr>status = 200, statusText = ''OK'', body = Some (Obj [(''candidates'', Arr [])])\<rparr>
           \<and> \<not> truthy (reportOf (Obj [(''candidates'', Arr [])]))"
    by (simp add: ok_def reportOf_def optProp_def optIndex0_def nullish_def)
  from C6_returned_text_non_empty [of "Some ''key''" mock400then200 "Str ''LGTM''" _
      "\<lparr>status = 200, statusText = ''OK'', body = Some (Obj [(''candidates'', Arr [])])\<rparr>"
      "Obj [(''candidates'', Arr [])]" 0] run r
  show ?thesis by (simp add: replied_def)
qed

section \<open>The claims about the upload gate\<close>

text \<open>
  C4 as stated fails: a file of 6 MiB whose MIME type and extension are both outside the
  allow-lists is rejected by the filter, before its size is seen, so the failure is
  \<open>InvalidFileType\<close> and not \<open>FileTooLarge\<close>.
\<close>

theorem C4_counterexample:
  "byteSize \<lparr>originalname = ''photo.png'', mimetype = ''image/png'',
             byteSize = 6 * 1024 * 1024, content = []\<rparr> > 5 * 1024 * 1024
   \<and> upload \<lparr>originalname = ''photo.png'', mimetype = ''image/png'',
             byteSize = 6 * 1024 * 1024, content = []\<rparr> \<noteq> Inl FileTooLarge"
proof -
  have "''image/png'' \<notin> set allowedMimeTypes
        \<and> toLowerCase (extname ''photo.png'') \<notin> set allowedExtensions" by code_simp
  then show ?thesis
    by (simp add: upload_def fileFilter_def typeAllowed_def fileSize_def)
qed

text \<open>
  C4, amended. The gate accepts a file if and only if its size is at most 5 MiB and its
  MIME type is in the MIME allow-list or its lowercased extension is in the extension
  allow-list. A file whose size exceeds 5 MiB and whose type passes fails with
  \<open>FileTooLarge\<close>; a file whose MIME type and extension both miss fails with
  \<open>InvalidFileType\<close>, whatever its size. In either failure the request is answered
  with 400 and no later stage runs: the trace holds the filter's log line and, for a file
  too large, the writing of the temporary file and its removal by the uploader, and
  nothing else; the world is as before, but for that temporary file.
\<close>

theorem C4_upload_gate:
  "(upload file = Inr True \<longleftrightarrow>
      byteSize file \<le> 5 * 1024 * 1024
      \<and> (mimetype file \<in> set allowedMimeTypes
         \<or> toLowerCase (extname (originalname file)) \<in> set allowedExtensions))
   \<and> (byteSize file > 5 * 1024 * 1024
      \<and> (mimetype file \<in> set allowedMimeTypes
         \<or> toLowerCase (extname (originalname file)) \<in> set allowedExtensions)
      \<longrightarrow> upload file = Inl FileTooLarge)
   \<and> (mimetype file \<notin> set allowedMimeTypes
      \<and> toLowerCase (extname (originalname file)) \<notin> set allowedExtensions
      \<longrightarrow> upload file = Inl InvalidFileType)
   \<and> (upload file = Inl err \<longrightarrow>
        analyze e w \<lparr>filePart = Some file, prompt = p\<rparr>
          = (\<lparr>code = 400,
              sent = ErrorJson (if err = FileTooLarge then ''File upload error: File too large''
                                else ''Invalid file type. Only code and text files are allowed.'')\<rparr>,
             (if err = FileTooLarge
              then (if unlinkFails e
                    then w\<lparr>files := (files w)(''uploads/'' @ tmpName e
                                      \<mapsto> take fileSize (content file))\<rparr>
                    else w\<lparr>files := (files w)(''uploads/'' @ tmpName e := None)\<rparr>)
              else w),
             LogReceived (originalname file) (mimetype file)
               # (if err = FileTooLarge
                  then [WriteTemp (''uploads/'' @ tmpName e), Unlink (''uploads/'' @ tmpName e)]
                  else [])))"
proof -
  have "upload file = Inl err \<longrightarrow>
        analyze e w \<lparr>filePart = Some file, prompt = p\<rparr>
          = (\<lparr>code = 400,
              sent = ErrorJson (if err = FileTooLarge then ''File upload error: File too large''
                                else ''Invalid file type. Only code and text files are allowed.'')\<rparr>,
             (if err = FileTooLarge
              then (if unlinkFails e
                    then w\<lparr>files := (files w)(''uploads/'' @ tmpName e
                                      \<mapsto> take fileSize (content file))\<rparr>
                    else w\<lparr>files := (files w)(''uploads/'' @ tmpName e := None)\<rparr>)
              else w),
             LogReceived (originalname file) (mimetype file)
               # (if err = FileTooLarge
                  then [WriteTemp (''uploads/'' @ tmpName e), Unlink (''uploads/'' @ tmpName e)]
                  else []))"
    by (cases err) (simp_all add: analyze_def uploader_def)
  then show ?thesis
    by (simp add: upload_def fileFilter_def typeAllowed_def fileSize_def)
qed

theorem C4_witness:
  "upload \<lparr>originalname = ''main.PY'', mimetype = [], byteSize = 1024, content = ''x = 1''\<rparr>
     = Inr True
   \<and> upload \<lparr>originalname = ''big.js'', mimetype = ''text/javascript'',
              byteSize = 6 * 1024 * 1024, content = []\<rparr> = Inl FileTooLarge
   \<and> upload \<lparr>originalname = ''photo.png'', mimetype = ''image/png'',
              byteSize = 2048, content = []\<rparr> = Inl InvalidFileType
   \<and> analyze
        \<lparr>GEMINI_API_KEY = Some ''key'', endpoint = mock500x4then200, tmpName = ''3f9a'',
          readFails = False, unlinkFails = False, storeDown = False\<rparr>
        \<lparr>files = Map.empty, reviews = [], nextId = 1, clock = 0\<rparr>
        \<lparr>filePart = Some \<lparr>originalname = ''photo.png'', mimetype = ''image/png'',
                            byteSize = 2048, content = []\<rparr>,
          prompt = Some ''review''\<rparr>
       = (\<lparr>code = 400,
           sent = ErrorJson ''Invalid file type. Only code and text files are allowed.''\<rparr>,
          \<lparr>files = Map.empty, reviews = [], nextId = 1, clock = 0\<rparr>,
          [LogReceived ''photo.png'' ''image/png''])"
proof -
  have ext: "toLowerCase (extname ''main.PY'') \<in> set allowedExtensions" by code_simp
  have mime: "''text/javascript'' \<in> set allowedMimeTypes" by code_simp
  have png: "''image/png'' \<notin> set allowedMimeTypes
             \<and> toLowerCase (extname ''photo.png'') \<notin> set allowedExtensions" by code_simp
  have a: "upload \<lparr>originalname = ''main.PY'', mimetype = [], byteSize = 1024, content = ''x = 1''\<rparr>
     = Inr True"
    using C4_upload_gate
      [of "\<lparr>originalname = ''main.PY'', mimetype = [], byteSize = 1024, content = ''x = 1''\<rparr>"]
      ext by simp
  have b: "upload \<lparr>originalname = ''big.js'', mimetype = ''text/javascript'',
              byteSize = 6 * 1024 * 1024, content = []\<rparr> = Inl FileTooLarge"
    using C4_upload_gate
      [of "\<lparr>originalname = ''big.js'', mimetype = ''text/javascript'',
              byteSize = 6 * 1024 * 1024, content = []\<rparr>"]
      mime by simp
  have c: "upload \<lparr>originalname = ''photo.png'', mimetype = ''image/png'',
              byteSize = 2048, content = []\<rparr> = Inl InvalidFileType"
    using C4_upload_gate
      [of "\<lparr>originalname = ''photo.png'', mimetype = ''image/png'',
              byteSize = 2048, content = []\<rparr>"]
      png by simp
  have d: "analyze
        \<lparr>GEMINI_API_KEY = Some ''key'', endpoint = mock500x4then200, tmpName = ''3f9a'',
          readFails = False, unlinkFails = False, storeDown = False\<rparr>
        \<lparr>files = Map.empty, reviews = [], nextId = 1, clock = 0\<rparr>
        \<lparr>filePart = Some \<lparr>originalname = ''photo.png'', mimetype = ''image/png'',
                            byteSize = 2048, content = []\<rparr>,
          prompt = Some ''review''\<rparr>
       = (\<lparr>code = 400,
           sent = ErrorJson ''Invalid file type. Only code and text files are allowed.''\<rparr>,
          \<lparr>files = Map.empty, reviews = [], nextId = 1, clock = 0\<rparr>,
          [LogReceived ''photo.png'' ''image/png''])"
    using C4_upload_gate
      [of "\<lparr>originalname = ''photo.png'', mimetype = ''image/png'',
              byteSize = 2048, content = []\<rparr>" InvalidFileType
          "\<lparr>GEMINI_API_KEY = Some ''key'', endpoint = mock500x4then200, tmpName = ''3f9a'',
             readFails = False, unlinkFails = False, storeDown = False\<rparr>"
          "\<lparr>files = Map.empty, reviews = [], nextId = 1, clock = 0\<rparr>" "Some ''review''"]
      c by simp
  from a b c d show ?thesis by blast
qed

text \<open>
  C10. A file that declares the MIME type \<^verbatim>\<open>application/octet-stream\<close> passes the
  type check whatever its name is, because that type is in the MIME allow-list; within
  the size limit of 5 MiB the gate accepts it.
\<close>

theorem C10_octet_stream_passes:
  "mimetype file = ''application/octet-stream'' \<Longrightarrow>
     ''application/octet-stream'' \<in> set allowedMimeTypes
     \<and> fileFilter file = Inr True
     \<and> (byteSize file \<le> 5 * 1024 * 1024 \<longrightarrow> upload file = Inr True)"
  by (simp add: upload_def fileFilter_def typeAllowed_def fileSize_def allowedMimeTypes_def)

theorem C10_witness:
  "toLowerCase (extname ''setup.exe'') \<notin> set allowedExtensions
   \<and> fileFilter \<lparr>originalname = ''setup.exe'', mimetype = ''application/octet-stream'',
                  byteSize = 4096, content = []\<rparr> = Inr True
   \<and> upload \<lparr>originalname = ''setup.exe'', mimetype = ''application/octet-stream'',
              byteSize = 4096, content = []\<rparr> = Inr True"
proof -
  have "toLowerCase (extname ''setup.exe'') \<notin> set allowedExtensions" by code_simp
  with C10_octet_stream_passes
    [of "\<lparr>originalname = ''setup.exe'', mimetype = ''application/octet-stream'',
          byteSize = 4096, content = []\<rparr>"]
  show ?thesis by simp
qed

section \<open>The claims about the analysis handler\<close>






lemma callGeminiApi_missing:
  "keyMissing k \<Longrightarrow> callGeminiApi k ep = (Inl MissingCredential, [])"
  by (simp add: callGeminiApi_def)



lemma analyzeHandler_reply:
  "fst (analyzeHandler e w reqFile userPrompt) =
     (case fst (analyzeTry e w reqFile userPrompt) of
        Inr r \<Rightarrow> r
      | Inl err \<Rightarrow> \<lparr>code = 500, sent = ErrorJson genericError\<rparr>)"
  by (simp add: analyzeHandler_def split: prod.splits sum.splits option.splits)















lemma analyze_stored:
  "upload file = Inr True \<Longrightarrow>
     fst (analyze e w \<lparr>filePart = Some file, prompt = p\<rparr>) =
       (case fst (analyzeTry e (w\<lparr>files := (files w)(''uploads/'' @ tmpName e \<mapsto> content file)\<rparr>)
                   (Some (file, ''uploads/'' @ tmpName e)) p) of
          Inr r \<Rightarrow> r
        | Inl err \<Rightarrow> \<lparr>code = 500, sent = ErrorJson genericError\<rparr>)"
  by (auto simp: analyze_def uploader_def analyzeHandler_reply [symmetric] split: prod.splits)

lemma analyze_stored_trace:
  "upload file = Inr True \<Longrightarrow>
     attempts (snd (snd (analyze e w \<lparr>filePart = Some file, prompt = p\<rparr>))) =
       attempts (snd (snd (analyzeTry e
          (w\<lparr>files := (files w)(''uploads/'' @ tmpName e \<mapsto> content file)\<rparr>)
          (Some (file, ''uploads/'' @ tmpName e)) p)))"
  by (simp add: analyze_def uploader_def analyzeHandler_def deleteTempFile_def attempts_append
        split: prod.splits sum.splits)

lemma analyze_stored_reviews:
  "upload file = Inr True \<Longrightarrow>
     reviews (fst (snd (analyze e w \<lparr>filePart = Some file, prompt = p\<rparr>))) =
       reviews (fst (snd (analyzeTry e
          (w\<lparr>files := (files w)(''uploads/'' @ tmpName e \<mapsto> content file)\<rparr>)
          (Some (file, ''uploads/'' @ tmpName e)) p)))"
  by (simp add: analyze_def uploader_def analyzeHandler_def deleteTempFile_def
        split: prod.splits sum.splits)

text \<open>
  C7. When the credential is not set, a call of the client fails with
  \<open>MissingCredential\<close> and its trace is empty: no request is sent, nothing is waited
  for. A request that passed validation (a stored file and a prompt) is then answered
  with 500, not 400, and its trace holds no attempt.
\<close>

theorem C7_missing_credential:
  "keyMissing (GEMINI_API_KEY e) \<Longrightarrow>
     callGeminiApi (GEMINI_API_KEY e) ep = (Inl MissingCredential, [])
     \<and> (upload file = Inr True \<and> p \<noteq> [] \<longrightarrow>
          fst (analyze e w \<lparr>filePart = Some file, prompt = Some p\<rparr>)
            = \<lparr>code = 500, sent = ErrorJson ''An internal server error occurred during the analysis.''\<rparr>
          \<and> code (fst (analyze e w \<lparr>filePart = Some file, prompt = Some p\<rparr>)) \<noteq> 400
          \<and> attempts (snd (snd (analyze e w \<lparr>filePart = Some file, prompt = Some p\<rparr>))) = 0)"
proof -
  assume k: "keyMissing (GEMINI_API_KEY e)"
  have call: "callGeminiApi (GEMINI_API_KEY e) x = (Inl MissingCredential, [])" for x
    using k by (rule callGeminiApi_missing)
  have "fst (analyze e w \<lparr>filePart = Some file, prompt = Some p\<rparr>)
            = \<lparr>code = 500, sent = ErrorJson ''An internal server error occurred during the analysis.''\<rparr>
        \<and> attempts (snd (snd (analyze e w \<lparr>filePart = Some file, prompt = Some p\<rparr>))) = 0"
    if "upload file = Inr True" "p \<noteq> []"
    using that
    by (simp add: analyze_stored analyze_stored_trace analyzeTry_def provided_def call
          genericError_def)
  with call show ?thesis by simp
qed

theorem C7_witness:
  "callGeminiApi None mock500x4then200 = (Inl MissingCredential, [])
   \<and> code (fst (analyze
      \<lparr>GEMINI_API_KEY = None, endpoint = mock500x4then200, tmpName = ''3f9a'', readFails = False,
        unlinkFails = False, storeDown = False\<rparr>
      \<lparr>files = Map.empty, reviews = [], nextId = 1, clock = 0\<rparr>
      \<lparr>filePart = Some \<lparr>originalname = ''main.py'', mimetype = ''text/x-python'',
                          byteSize = 5, content = ''x = 1''\<rparr>,
        prompt = Some ''review''\<rparr>)) = 500"
proof -
  have "''text/x-python'' \<in> set allowedMimeTypes" by code_simp
  then have "upload \<lparr>originalname = ''main.py'', mimetype = ''text/x-python'',
                      byteSize = 5, content = ''x = 1''\<rparr> = Inr True"
    by (simp add: upload_def fileFilter_def typeAllowed_def fileSize_def)
  with C7_missing_credential
    [of "\<lparr>GEMINI_API_KEY = None, endpoint = mock500x4then200, tmpName = ''3f9a'',
           readFails = False, unlinkFails = False, storeDown = False\<rparr>"
        mock500x4then200
        "\<lparr>originalname = ''main.py'', mimetype = ''text/x-python'',
           byteSize = 5, content = ''x = 1''\<rparr>"
        "''review''"
        "\<lparr>files = Map.empty, reviews = [], nextId = 1, clock = 0\<rparr>"]
  show ?thesis by (simp add: keyMissing_def)
qed

text \<open>
  C8. For a request that passed validation (a stored file and a prompt): when reading
  the file fails, or the client fails with any error (missing credential, a failed
  generation, the last error of a run of retries), or the insert fails, the reply is
  status 500 with exactly the generic message, which holds nothing of the error, and the
  table of reviews is as before. Otherwise the reply is 201 with the new row.
\<close>

theorem C8_errors_become_generic_500:
  assumes "upload file = Inr True" and "p \<noteq> []"
  shows "(readFails e \<or> isl (fst (callGeminiApi (GEMINI_API_KEY e) (endpoint e))) \<or> storeDown e \<longrightarrow>
            fst (analyze e w \<lparr>filePart = Some file, prompt = Some p\<rparr>)
              = \<lparr>code = 500,
                 sent = ErrorJson ''An internal server error occurred during the analysis.''\<rparr>
            \<and> reviews (fst (snd (analyze e w \<lparr>filePart = Some file, prompt = Some p\<rparr>)))
                = reviews w)
     \<and> (\<not> readFails e \<and> \<not> storeDown e
          \<and> fst (callGeminiApi (GEMINI_API_KEY e) (endpoint e)) = Inr rep \<longrightarrow>
            fst (analyze e w \<lparr>filePart = Some file, prompt = Some p\<rparr>)
              = \<lparr>code = 201,
                 sent = AnalysisJson ''Analysis successful!'' (nextId w) (originalname file)
                          (clock w) p rep\<rparr>
            \<and> reviews (fst (snd (analyze e w \<lparr>filePart = Some file, prompt = Some p\<rparr>)))
                = \<lparr>review_id = nextId w, filename = originalname file, review_prompt = p,
                    report = rep, created_at = clock w\<rparr> # reviews w)"
proof -
  obtain res tr where c: "callGeminiApi (GEMINI_API_KEY e) (endpoint e) = (res, tr)"
    by (cases "callGeminiApi (GEMINI_API_KEY e) (endpoint e)")
  show ?thesis
  proof (cases res)
    case (Inl err)
    with assms c show ?thesis
      by (simp add: analyze_stored analyze_stored_reviews analyzeTry_def provided_def
            genericError_def)
  next
    case (Inr v)
    with assms c show ?thesis
      by (simp add: analyze_stored analyze_stored_reviews analyzeTry_def provided_def
            genericError_def insertReview_def Let_def)
  qed
qed

theorem C8_witness:
  "fst (analyze
      \<lparr>GEMINI_API_KEY = Some ''key'', endpoint = mock500x4then200, tmpName = ''3f9a'',
        readFails = False, unlinkFails = False, storeDown = True\<rparr>
      \<lparr>files = Map.empty, reviews = [], nextId = 1, clock = 0\<rparr>
      \<lparr>filePart = Some \<lparr>originalname = ''main.py'', mimetype = ''text/x-python'',
                          byteSize = 5, content = ''x = 1''\<rparr>,
        prompt = Some ''review''\<rparr>)
     = \<lparr>code = 500, sent = ErrorJson ''An internal server error occurred during the analysis.''\<rparr>"
proof -
  have "''text/x-python'' \<in> set allowedMimeTypes" by code_simp
  then have "upload \<lparr>originalname = ''main.py'', mimetype = ''text/x-python'',
                      byteSize = 5, content = ''x = 1''\<rparr> = Inr True"
    by (simp add: upload_def fileFilter_def typeAllowed_def fileSize_def)
  from C8_errors_become_generic_500 [OF this, of "''review''"
      "\<lparr>GEMINI_API_KEY = Some ''key'', endpoint = mock500x4then200, tmpName = ''3f9a'',
         readFails = False, unlinkFails = False, storeDown = True\<rparr>"
      "\<lparr>files = Map.empty, reviews = [], nextId = 1, clock = 0\<rparr>"]
  show ?thesis by simp
qed

section \<open>The claims about the stored reports\<close>

text \<open>
  C9. While the store answers and reads the identifier: deleting an identifier that no
  row has is answered with 404 and changes nothing; deleting an identifier that a row
  has is answered with 204 and an empty body, removes every row with it and no other
  row, and a Get of the same identifier afterwards is answered with 404.
\<close>

theorem C9_delete_then_get:
  assumes "asId rid = Some k"
  shows "(k \<notin> review_id ` set (reviews w) \<longrightarrow>
            deleteReport asId False w rid
              = (\<lparr>code = 404, sent = ErrorJson (''Report with ID '' @ rid @ '' not found.'')\<rparr>, w))
     \<and> (k \<in> review_id ` set (reviews w) \<longrightarrow>
            fst (deleteReport asId False w rid) = \<lparr>code = 204, sent = EmptyBody\<rparr>
            \<and> k \<notin> review_id ` set (reviews (snd (deleteReport asId False w rid)))
            \<and> set (reviews (snd (deleteReport asId False w rid)))
                = {r \<in> set (reviews w). review_id r \<noteq> k}
            \<and> getReport asId False (snd (deleteReport asId False w rid)) rid
                = \<lparr>code = 404, sent = ErrorJson (''Report with ID '' @ rid @ '' not found.'')\<rparr>)"
proof -
  have absent: "deleteReport asId False w rid
              = (\<lparr>code = 404, sent = ErrorJson (''Report with ID '' @ rid @ '' not found.'')\<rparr>, w)"
    if "k \<notin> review_id ` set (reviews w)"
  proof -
    from that have all: "\<forall>r \<in> set (reviews w). review_id r \<noteq> k" by auto
    then have "filter (\<lambda>r. review_id r = k) (reviews w) = []"
      by (simp add: filter_empty_conv)
    moreover from all have "filter (\<lambda>r. review_id r \<noteq> k) (reviews w) = reviews w"
      by (simp add: filter_id_conv)
    ultimately show ?thesis using assms
      by (simp add: deleteReport_def deleteById_def)
  qed
  have present: "fst (deleteReport asId False w rid) = \<lparr>code = 204, sent = EmptyBody\<rparr>
            \<and> k \<notin> review_id ` set (reviews (snd (deleteReport asId False w rid)))
            \<and> set (reviews (snd (deleteReport asId False w rid)))
                = {r \<in> set (reviews w). review_id r \<noteq> k}
            \<and> getReport asId False (snd (deleteReport asId False w rid)) rid
                = \<lparr>code = 404, sent = ErrorJson (''Report with ID '' @ rid @ '' not found.'')\<rparr>"
    if "k \<in> review_id ` set (reviews w)"
  proof -
    from that have ne: "filter (\<lambda>r. review_id r = k) (reviews w) \<noteq> []"
      by (auto simp: filter_empty_conv)
    then have del: "deleteReport asId False w rid
        = (\<lparr>code = 204, sent = EmptyBody\<rparr>,
           w\<lparr>reviews := filter (\<lambda>r. review_id r \<noteq> k) (reviews w)\<rparr>)"
      using assms by (simp add: deleteReport_def deleteById_def)
    have gone: "filter (\<lambda>r. review_id r = k) (filter (\<lambda>r. review_id r \<noteq> k) (reviews w)) = []"
      by (simp add: filter_empty_conv)
    show ?thesis
      using assms gone by (auto simp: del getReport_def selectById_def)
  qed
  from absent present show ?thesis by blast
qed

theorem C9_witness:
  "deleteReport (\<lambda>s. if s = ''7'' then Some 7 else None) False
      \<lparr>files = Map.empty,
        reviews = [\<lparr>review_id = 7, filename = ''main.py'', review_prompt = ''review'',
                    report = Str ''LGTM'', created_at = 3\<rparr>],
        nextId = 8, clock = 4\<rparr> ''7''
     = (\<lparr>code = 204, sent = EmptyBody\<rparr>,
        \<lparr>files = Map.empty, reviews = [], nextId = 8, clock = 4\<rparr>)
   \<and> getReport (\<lambda>s. if s = ''7'' then Some 7 else None) False
        \<lparr>files = Map.empty, reviews = [], nextId = 8, clock = 4\<rparr> ''7''
     = \<lparr>code = 404, sent = ErrorJson ''Report with ID 7 not found.''\<rparr>
   \<and> deleteReport (\<lambda>s. if s = ''7'' then Some 7 else None) False
        \<lparr>files = Map.empty, reviews = [], nextId = 8, clock = 4\<rparr> ''7''
     = (\<lparr>code = 404, sent = ErrorJson ''Report with ID 7 not found.''\<rparr>,
        \<lparr>files = Map.empty, reviews = [], nextId = 8, clock = 4\<rparr>)"
proof -
  have id: "(\<lambda>s. if s = ''7'' then Some (7::int) else None) ''7'' = Some 7" by simp
  have del: "snd (deleteReport (\<lambda>s. if s = ''7'' then Some 7 else None) False
      \<lparr>files = Map.empty,
        reviews = [\<lparr>review_id = 7, filename = ''main.py'', review_prompt = ''review'',
                    report = Str ''LGTM'', created_at = 3\<rparr>],
        nextId = 8, clock = 4\<rparr> ''7'')
      = \<lparr>files = Map.empty, reviews = [], nextId = 8, clock = 4\<rparr>"
    by (simp add: deleteReport_def deleteById_def)
  from C9_delete_then_get [of "\<lambda>s. if s = ''7'' then Some 7 else None" "''7''" 7
      "\<lparr>files = Map.empty,
        reviews = [\<lparr>review_id = 7, filename = ''main.py'', review_prompt = ''review'',
                    report = Str ''LGTM'', created_at = 3\<rparr>],
        nextId = 8, clock = 4\<rparr>"]
    C9_delete_then_get [of "\<lambda>s. if s = ''7'' then Some 7 else None" "''7''" 7
      "\<lparr>files = Map.empty, reviews = [], nextId = 8, clock = 4\<rparr>"]
    id del
  show ?thesis by (simp add: prod_eq_iff)
qed

end
